theory Spec2Isabelle
  imports Main "HOL-Library.Word"
begin

section \<open>The runtime security probe (pkg/security/probe/probe\_bpf.go)\<close>

text \<open>
  A shallow embedding of the probe: the \<open>Probe\<close> struct becomes a record that is passed
  through every operation and returned updated, every error return becomes a value, a
  panic of the Go runtime becomes the outcome \<open>Panic\<close>, and every call that leaves the
  file (the logger, the resolvers, the event handler, the discarder and approver
  functions, the kernel tables, the statsd client) is appended to a trace, in the order
  in which the code makes it.
\<close>

subsection \<open>Basic types\<close>

type_synonym byte = "8 word"
type_synonym uint32 = "32 word"
type_synonym int64 = "64 word"

text \<open>
  \<open>EventType\<close> is the probe's integer event type (its ordinal indexes the counters);
  \<open>eval_EventType\<close> is the rule language's event type, a string such as \<open>''open''\<close>.
\<close>

type_synonym EventType = nat
type_synonym eval_EventType = string
type_synonym Field = string
type_synonym RuleSet = string
type_synonym MapHandle = string
type_synonym ProbesSelector = string

text \<open>
  An error is either built in this file by \<open>fmt.Errorf\<close> (format and arguments) or
  comes from code outside it.
\<close>

datatype error = fmt_Errorf string "string list" | Foreign string

text \<open>The value of a field, an \<open>interface{}\<close> in the source.\<close>

datatype Value = IntValue int | StringValue string | BoolValue bool

type_synonym Approvers = "(Field \<times> Value list) list"

record Discarder =
  Field :: Field
  Value :: Value

text \<open>
  Modelled from the spec: the mode of a filter policy, declared outside this file, is an
  enumeration (no-filter, monitor, accept, deny); the flags are a bit mask.
\<close>

datatype PolicyMode = PolicyModeNoFilter | PolicyModeMonitor | PolicyModeAccept | PolicyModeDeny

type_synonym PolicyFlag = "8 word"

record FilterPolicy =
  Mode :: PolicyMode
  Flags :: PolicyFlag

subsection \<open>Events\<close>

text \<open>
  Modelled from the spec: the payload of a mount event, declared outside this file,
  carries the mount identifier, the parent mount, the mount point path, the root path and
  the device.
\<close>

record MountEvent =
  Mount_MountID :: uint32
  ParentMountID :: uint32
  MountPointStr :: string
  RootStr :: string
  Device :: uint32

text \<open>
  The payload of an umount event, declared outside this file; the source reads its field
  \<open>MountID\<close> only.
\<close>

record UmountEvent =
  Umount_MountID :: uint32

text \<open>
  The \<open>Event\<close> struct holds the type tag read from the header and one payload struct per
  variant. The payload structs of the file events are declared outside this file; their
  contents are a value of the type parameter \<open>'f\<close>.
\<close>

record 'f Event =
  Type :: EventType
  Open :: 'f
  Mkdir :: 'f
  Rmdir :: 'f
  Unlink :: 'f
  Rename :: 'f
  Chmod :: 'f
  Chown :: 'f
  Utimes :: 'f
  Link :: 'f
  Mount :: MountEvent
  Umount :: UmountEvent
  SetXAttr :: 'f
  RemoveXAttr :: 'f

subsection \<open>The trace of outgoing calls\<close>

datatype Level = TRACE | INFO | WARN | ERROR

datatype 'f LogArg =
    ArgErr error
  | ArgInt int
  | ArgStr string
  | ArgUint32 uint32
  | ArgEventType EventType
  | ArgMode PolicyMode
  | ArgEvent "'f Event"

datatype EventHandler = EventHandler string

datatype 'f Call =
    Log Level string "'f LogArg list"
  | Call_ResolveMountPoint MountEvent
  | Call_ResolveRoot MountEvent
  | Call_Insert MountEvent
  | Call_Delete uint32
  | Call_HandleEvent EventHandler "'f Event"
  | Call_onDiscarderFnc string RuleSet "'f Event" Discarder
  | Call_onApproversFnc string Approvers
  | Call_Put MapHandle uint32 FilterPolicy
  | Call_Count string int64 "string list"
  | Call_SyscallMonitor_SendStats

subsection \<open>The parts of the probe\<close>

record Config =
  EnableKernelFilters :: bool
  EnableDiscarders :: bool
  SyscallMonitor :: bool

record ManagerOptions =
  ActivatedProbes :: "ProbesSelector list"

text \<open>
  The manager of the eBPF library: \<open>GetMap\<close> returns the map (\<open>None\<close> is the nil
  pointer), whether it was found, and an error.
\<close>

record Manager =
  GetMap :: "string \<Rightarrow> MapHandle option \<times> bool \<times> error option"

record Resolvers =
  MountResolver :: "uint32 \<rightharpoonup> MountEvent"

text \<open>
  Modelled from the spec: the statistics, declared outside this file, are an array of
  counters indexed by the ordinal of the event type and one counter of lost events.
\<close>

record EventsStats =
  Lost :: int64
  PerEventType :: "int64 list"

text \<open>
  A discarder or approver function is a Go function value: a name (its identity) and the
  error it returns on its arguments.
\<close>

record 'f onDiscarderFnc =
  discarderName :: string
  discarderRun :: "RuleSet \<Rightarrow> 'f Event \<Rightarrow> Discarder \<Rightarrow> error option"

record onApproversFnc =
  approverName :: string
  approverRun :: "Approvers \<Rightarrow> error option"

type_synonym SyscallStats = string

record SyscallMonitorT =
  monitorSendStats :: "error option"
  monitorGetStats :: "SyscallStats option \<times> error option"

text \<open>
  The \<open>Probe\<close> struct. The last three fields are not fields of the struct: they are the
  world the probe acts on, namely the contents of the kernel's maps, the error a write
  to a kernel map meets (\<open>None\<close>: the write succeeds), and the trace of outgoing calls.
\<close>

record 'f Probe =
  manager :: "Manager option"
  managerOptions :: ManagerOptions
  config :: Config
  handler :: "EventHandler option"
  resolvers :: Resolvers
  onDiscardersFncs :: "eval_EventType \<Rightarrow> 'f onDiscarderFnc list"
  syscallMonitor :: "SyscallMonitorT option"
  eventsStats :: EventsStats
  event :: "'f Event"
  kernelMaps :: "MapHandle \<Rightarrow> (uint32 \<rightharpoonup> FilterPolicy)"
  kernelPutError :: "MapHandle \<Rightarrow> error option"
  trace :: "'f Call list"

text \<open>
  The code of the package that this file calls and that is declared in other files,
  taken as parameters: the decoders of the header and of each payload, the event type
  constants, the name of an event type, the zero value of a file payload, the two
  resolution routines of a mount event, the field accessors of an event, the default
  options of the manager and the selectors of the syscall monitor.
\<close>

record 'f Extern =
  Event_UnmarshalBinary :: "byte list \<Rightarrow> 'f Event \<Rightarrow> error + int \<times> 'f Event"
  Open_UnmarshalBinary :: "byte list \<Rightarrow> error + 'f"
  Mkdir_UnmarshalBinary :: "byte list \<Rightarrow> error + 'f"
  Rmdir_UnmarshalBinary :: "byte list \<Rightarrow> error + 'f"
  Unlink_UnmarshalBinary :: "byte list \<Rightarrow> error + 'f"
  Rename_UnmarshalBinary :: "byte list \<Rightarrow> error + 'f"
  Chmod_UnmarshalBinary :: "byte list \<Rightarrow> error + 'f"
  Chown_UnmarshalBinary :: "byte list \<Rightarrow> error + 'f"
  Utimes_UnmarshalBinary :: "byte list \<Rightarrow> error + 'f"
  Link_UnmarshalBinary :: "byte list \<Rightarrow> error + 'f"
  Mount_UnmarshalBinary :: "byte list \<Rightarrow> error + MountEvent"
  Umount_UnmarshalBinary :: "byte list \<Rightarrow> error + UmountEvent"
  SetXAttr_UnmarshalBinary :: "byte list \<Rightarrow> error + 'f"
  RemoveXAttr_UnmarshalBinary :: "byte list \<Rightarrow> error + 'f"
  FileOpenEventType :: EventType
  FileMkdirEventType :: EventType
  FileRmdirEventType :: EventType
  FileUnlinkEventType :: EventType
  FileRenameEventType :: EventType
  FileChmodEventType :: EventType
  FileChownEventType :: EventType
  FileUtimeEventType :: EventType
  FileLinkEventType :: EventType
  FileMountEventType :: EventType
  FileUmountEventType :: EventType
  FileSetXAttrEventType :: EventType
  FileRemoveXAttrEventType :: EventType
  EventType_String :: "EventType \<Rightarrow> string"
  fileZero :: 'f
  ResolveMountPoint :: "Resolvers \<Rightarrow> MountEvent \<Rightarrow> MountEvent"
  ResolveRoot :: "Resolvers \<Rightarrow> MountEvent \<Rightarrow> MountEvent"
  GetFieldEventType :: "'f Event \<Rightarrow> Field \<Rightarrow> error + eval_EventType"
  GetFieldValue :: "'f Event \<Rightarrow> Field \<Rightarrow> error + Value"
  NewDefaultOptions :: ManagerOptions
  SyscallMonitorSelectors :: "ProbesSelector list"

text \<open>
  The two registries of the package, which are variables declared in this file.
\<close>

record 'f Globals =
  allApproversFncs :: "eval_EventType \<rightharpoonup> onApproversFnc"
  allDiscarderFncs :: "eval_EventType \<rightharpoonup> 'f onDiscarderFnc"


text \<open>
  How a function leaves: by a panic of the runtime, by a \<open>return\<close>, or by reaching
  the end of a block so that the code after it runs.
\<close>

datatype 'a flow = Panic | Return 'a | Next 'a

subsection \<open>Logging and slicing\<close>

definition log :: "Level \<Rightarrow> string \<Rightarrow> 'f LogArg list \<Rightarrow> 'f Probe \<Rightarrow> 'f Probe" where
  "log l fmt args p = p\<lparr>trace := trace p @ [Log l fmt args]\<rparr>"

text \<open>
  The slice expression \<open>data[offset:]\<close>: the rest of the buffer from \<open>offset\<close>, and a
  panic of the runtime (\<open>None\<close>) when \<open>offset\<close> is negative or beyond the length.
\<close>

definition slice_from :: "byte list \<Rightarrow> int \<Rightarrow> byte list option" where
  "slice_from data offset =
     (if 0 \<le> offset \<and> offset \<le> int (length data) then Some (drop (nat offset) data) else None)"

subsection \<open>The statistics\<close>

text \<open>
  The methods of the statistics are declared outside this file. The counters are 64-bit
  integers, so an addition wraps around; an index outside the array is a panic of the
  runtime (\<open>None\<close>).
\<close>

text \<open>
  Modelled from the spec: \<open>CountEventType\<close>, declared outside this file, adds a count
  to the counter of an event type.
\<close>

definition CountEventType :: "EventType \<Rightarrow> int64 \<Rightarrow> EventsStats \<Rightarrow> EventsStats option" where
  "CountEventType eventType count st =
     (if eventType < length (PerEventType st)
      then Some (st\<lparr>PerEventType := (PerEventType st)[eventType := PerEventType st ! eventType + count]\<rparr>)
      else None)"

text \<open>
  Modelled from the spec: \<open>CountLost\<close>, declared outside this file, adds a count to the
  counter of lost events.
\<close>

definition CountLost :: "int64 \<Rightarrow> EventsStats \<Rightarrow> EventsStats" where
  "CountLost count st = st\<lparr>Lost := Lost st + count\<rparr>"





subsection \<open>The mount resolver\<close>

text \<open>
  The two resolution routines of a mount event are given the resolvers and fill in the
  mount event of the container; what they compute is a parameter.
\<close>

definition Mount_ResolveMountPoint :: "'f Extern \<Rightarrow> 'f Probe \<Rightarrow> 'f Probe" where
  "Mount_ResolveMountPoint E p =
     p\<lparr>event := (event p)\<lparr>Mount := ResolveMountPoint E (resolvers p) (Mount (event p))\<rparr>,
       trace := trace p @ [Call_ResolveMountPoint (Mount (event p))]\<rparr>"

definition Mount_ResolveRoot :: "'f Extern \<Rightarrow> 'f Probe \<Rightarrow> 'f Probe" where
  "Mount_ResolveRoot E p =
     p\<lparr>event := (event p)\<lparr>Mount := ResolveRoot E (resolvers p) (Mount (event p))\<rparr>,
       trace := trace p @ [Call_ResolveRoot (Mount (event p))]\<rparr>"

text \<open>
  Modelled from the spec: \<open>MountResolver.Insert\<close>, declared outside this file, is an
  unconditional upsert keyed by the mount id, which overwrites any entry of that id.
\<close>

definition MountResolver_Insert :: "MountEvent \<Rightarrow> 'f Probe \<Rightarrow> 'f Probe" where
  "MountResolver_Insert m p =
     p\<lparr>resolvers := (resolvers p)\<lparr>MountResolver := (MountResolver (resolvers p))(Mount_MountID m \<mapsto> m)\<rparr>,
       trace := trace p @ [Call_Insert m]\<rparr>"

text \<open>
  Modelled from the spec: the not-found error of \<open>MountResolver.Delete\<close>, declared
  outside this file.
\<close>

definition ErrMountNotFound :: error where
  "ErrMountNotFound = Foreign ''mount not found''"

text \<open>
  Modelled from the spec: \<open>MountResolver.Delete\<close>, declared outside this file, removes
  the entry of a mount id and returns a not-found error, leaving the cache as it is,
  when there is none.
\<close>

definition MountResolver_Delete :: "uint32 \<Rightarrow> 'f Probe \<Rightarrow> error option \<times> 'f Probe" where
  "MountResolver_Delete mountID p =
     (case MountResolver (resolvers p) mountID of
        None \<Rightarrow> (Some ErrMountNotFound, p\<lparr>trace := trace p @ [Call_Delete mountID]\<rparr>)
      | Some m \<Rightarrow>
          (None, p\<lparr>resolvers := (resolvers p)\<lparr>MountResolver := (MountResolver (resolvers p))(mountID := None)\<rparr>,
                   trace := trace p @ [Call_Delete mountID]\<rparr>))"

subsection \<open>Dispatching events\<close>

definition SetEventHandler :: "EventHandler option \<Rightarrow> 'f Probe \<Rightarrow> 'f Probe" where
  "SetEventHandler h p = p\<lparr>handler := h\<rparr>"

definition DispatchEvent :: "'f Event \<Rightarrow> 'f Probe \<Rightarrow> 'f Probe" where
  "DispatchEvent ev p =
     (case handler p of
        Some h \<Rightarrow> p\<lparr>trace := trace p @ [Call_HandleEvent h ev]\<rparr>
      | None \<Rightarrow> p)"

definition handleLostEvents :: "int \<Rightarrow> 64 word \<Rightarrow> 'f Probe \<Rightarrow> 'f Probe" where
  "handleLostEvents CPU count p =
     (let p = log WARN ''lost %d events\<newline>'' [ArgInt (uint count)] p
      in p\<lparr>eventsStats := CountLost count (eventsStats p)\<rparr>)"

definition eventZero :: "'f Extern \<Rightarrow> 'f Event" where
  "eventZero E =
     \<lparr>Type = 0, Open = fileZero E, Mkdir = fileZero E, Rmdir = fileZero E, Unlink = fileZero E,
      Rename = fileZero E, Chmod = fileZero E, Chown = fileZero E, Utimes = fileZero E,
      Link = fileZero E,
      Mount = \<lparr>Mount_MountID = 0, ParentMountID = 0, MountPointStr = [], RootStr = [], Device = 0\<rparr>,
      Umount = \<lparr>Umount_MountID = 0\<rparr>,
      SetXAttr = fileZero E, RemoveXAttr = fileZero E\<rparr>"

text \<open>
  \<open>zeroEvent\<close> overwrites the one container of the probe. (The pointer to the resolvers
  that the source stores in the container is the field \<open>resolvers\<close> of the probe.)
\<close>

definition zeroEvent :: "'f Extern \<Rightarrow> 'f Probe \<Rightarrow> 'f Probe" where
  "zeroEvent E p = p\<lparr>event := eventZero E\<rparr>"

text \<open>
  One case of the switch for a file event: decode the rest of the buffer into the
  payload of the variant; on an error, log it and return.
\<close>

definition fileCase ::
  "(byte list \<Rightarrow> error + 'f) \<Rightarrow> string \<Rightarrow> ('f \<Rightarrow> 'f Event \<Rightarrow> 'f Event) \<Rightarrow>
   byte list \<Rightarrow> int \<Rightarrow> 'f Probe \<Rightarrow> 'f Probe flow" where
  "fileCase unmarshal fmt store data offset p =
     (case slice_from data offset of
        None \<Rightarrow> Panic
      | Some rest \<Rightarrow>
          (case unmarshal rest of
             Inl err \<Rightarrow> Return (log ERROR fmt [ArgErr err, ArgInt offset, ArgInt (int (length data))] p)
           | Inr v \<Rightarrow> Next (p\<lparr>event := store v (event p)\<rparr>)))"

definition mountCase :: "'f Extern \<Rightarrow> byte list \<Rightarrow> int \<Rightarrow> 'f Probe \<Rightarrow> 'f Probe flow" where
  "mountCase E data offset p =
     (case slice_from data offset of
        None \<Rightarrow> Panic
      | Some rest \<Rightarrow>
          (case Mount_UnmarshalBinary E rest of
             Inl err \<Rightarrow>
               Return (log ERROR ''failed to decode mount event: %s (offset %d, len %d)''
                         [ArgErr err, ArgInt offset, ArgInt (int (length data))] p)
           | Inr m \<Rightarrow>
               (let p = p\<lparr>event := (event p)\<lparr>Mount := m\<rparr>\<rparr>;
                    p = Mount_ResolveMountPoint E p;
                    p = Mount_ResolveRoot E p;
                    p = MountResolver_Insert (Mount (event p)) p
                in Next p)))"

definition umountCase :: "'f Extern \<Rightarrow> byte list \<Rightarrow> int \<Rightarrow> 'f Probe \<Rightarrow> 'f Probe flow" where
  "umountCase E data offset p =
     (case slice_from data offset of
        None \<Rightarrow> Panic
      | Some rest \<Rightarrow>
          (case Umount_UnmarshalBinary E rest of
             Inl err \<Rightarrow>
               Return (log ERROR ''failed to decode umount event: %s (offset %d, len %d)''
                         [ArgErr err, ArgInt offset, ArgInt (int (length data))] p)
           | Inr u \<Rightarrow>
               (let p = p\<lparr>event := (event p)\<lparr>Umount := u\<rparr>\<rparr>
                in case MountResolver_Delete (Umount_MountID (Umount (event p))) p of
                     (Some err, p) \<Rightarrow>
                       Next (log ERROR ''failed to delete mount point %d from cache: %s''
                               [ArgUint32 (Umount_MountID (Umount (event p))), ArgErr err] p)
                   | (None, p) \<Rightarrow> Next p)))"

definition switch_eventType ::
  "'f Extern \<Rightarrow> EventType \<Rightarrow> byte list \<Rightarrow> int \<Rightarrow> 'f Probe \<Rightarrow> 'f Probe flow" where
  "switch_eventType E eventType data offset p =
     (if eventType = FileOpenEventType E then
        fileCase (Open_UnmarshalBinary E) ''failed to decode open event: %s (offset %d, len %d)''
          (\<lambda>v e. e\<lparr>Open := v\<rparr>) data offset p
      else if eventType = FileMkdirEventType E then
        fileCase (Mkdir_UnmarshalBinary E) ''failed to decode mkdir event: %s (offset %d, len %d)''
          (\<lambda>v e. e\<lparr>Mkdir := v\<rparr>) data offset p
      else if eventType = FileRmdirEventType E then
        fileCase (Rmdir_UnmarshalBinary E) ''failed to decode rmdir event: %s (offset %d, len %d)''
          (\<lambda>v e. e\<lparr>Rmdir := v\<rparr>) data offset p
      else if eventType = FileUnlinkEventType E then
        fileCase (Unlink_UnmarshalBinary E) ''failed to decode unlink event: %s (offset %d, len %d)''
          (\<lambda>v e. e\<lparr>Unlink := v\<rparr>) data offset p
      else if eventType = FileRenameEventType E then
        fileCase (Rename_UnmarshalBinary E) ''failed to decode rename event: %s (offset %d, len %d)''
          (\<lambda>v e. e\<lparr>Rename := v\<rparr>) data offset p
      else if eventType = FileChmodEventType E then
        fileCase (Chmod_UnmarshalBinary E) ''failed to decode chmod event: %s (offset %d, len %d)''
          (\<lambda>v e. e\<lparr>Chmod := v\<rparr>) data offset p
      else if eventType = FileChownEventType E then
        fileCase (Chown_UnmarshalBinary E) ''failed to decode chown event: %s (offset %d, len %d)''
          (\<lambda>v e. e\<lparr>Chown := v\<rparr>) data offset p
      else if eventType = FileUtimeEventType E then
        fileCase (Utimes_UnmarshalBinary E) ''failed to decode utime event: %s (offset %d, len %d)''
          (\<lambda>v e. e\<lparr>Utimes := v\<rparr>) data offset p
      else if eventType = FileLinkEventType E then
        fileCase (Link_UnmarshalBinary E) ''failed to decode link event: %s (offset %d, len %d)''
          (\<lambda>v e. e\<lparr>Link := v\<rparr>) data offset p
      else if eventType = FileMountEventType E then mountCase E data offset p
      else if eventType = FileUmountEventType E then umountCase E data offset p
      else if eventType = FileSetXAttrEventType E then
        fileCase (SetXAttr_UnmarshalBinary E) ''failed to decode setxattr event: %s (offset %d, len %d)''
          (\<lambda>v e. e\<lparr>SetXAttr := v\<rparr>) data offset p
      else if eventType = FileRemoveXAttrEventType E then
        fileCase (RemoveXAttr_UnmarshalBinary E) ''failed to decode removexattr event: %s (offset %d, len %d)''
          (\<lambda>v e. e\<lparr>RemoveXAttr := v\<rparr>) data offset p
      else Return (log ERROR ''unsupported event type %d'' [ArgEventType eventType] p))"

text \<open>
  \<open>handleEvent\<close>, the callback of the perf map. A decoder that fails is taken to leave
  the container as it found it. The code after the switch counts the event and
  dispatches it.
\<close>

definition afterSwitch :: "EventType \<Rightarrow> 'f Probe \<Rightarrow> 'f Probe flow" where
  "afterSwitch eventType p =
     (case CountEventType eventType 1 (eventsStats p) of
        None \<Rightarrow> Panic
      | Some st \<Rightarrow>
          (let p = p\<lparr>eventsStats := st\<rparr>;
               p = log TRACE ''Dispatching event %+v\<newline>'' [ArgEvent (event p)] p
           in Return (DispatchEvent (event p) p)))"

definition handleEvent :: "'f Extern \<Rightarrow> int \<Rightarrow> byte list \<Rightarrow> 'f Probe \<Rightarrow> 'f Probe flow" where
  "handleEvent E CPU data p0 =
     (let offset = 0;
          p = zeroEvent E p0
      in case Event_UnmarshalBinary E data (event p) of
           Inl err \<Rightarrow> Return (log ERROR ''failed to decode event: %s'' [ArgErr err] p)
         | Inr (read, ev) \<Rightarrow>
             (let p = p\<lparr>event := ev\<rparr>;
                  offset = offset + read;
                  eventType = Type (event p);
                  p = log TRACE ''Decoding event %s'' [ArgEventType eventType] p
              in case switch_eventType E eventType data offset p of
                   Panic \<Rightarrow> Panic
                 | Return p \<Rightarrow> Return p
                 | Next p \<Rightarrow> afterSwitch eventType p))"

subsection \<open>Initialisation\<close>

text \<open>
  The declaration of the two registries makes them empty; \<open>init\<close> registers the approver
  function of \<open>open\<close> and the discarder functions of \<open>open\<close> and \<open>unlink\<close>, which are
  declared in other files.
\<close>

definition emptyGlobals :: "'f Globals" where
  "emptyGlobals = \<lparr>allApproversFncs = Map.empty, allDiscarderFncs = Map.empty\<rparr>"

definition init ::
  "onApproversFnc \<Rightarrow> 'f onDiscarderFnc \<Rightarrow> 'f onDiscarderFnc \<Rightarrow> 'f Globals \<Rightarrow> 'f Globals" where
  "init openOnNewApprovers openOnNewDiscarder unlinkOnNewDiscarder G =
     (let G = G\<lparr>allApproversFncs := (allApproversFncs G)(''open'' \<mapsto> openOnNewApprovers)\<rparr>;
          G = G\<lparr>allDiscarderFncs := (allDiscarderFncs G)(''open'' \<mapsto> openOnNewDiscarder)\<rparr>;
          G = G\<lparr>allDiscarderFncs := (allDiscarderFncs G)(''unlink'' \<mapsto> unlinkOnNewDiscarder)\<rparr>
      in G)"

definition RegisterProbesSelectors :: "ProbesSelector list \<Rightarrow> 'f Probe \<Rightarrow> error option \<times> 'f Probe" where
  "RegisterProbesSelectors selectors p =
     (None, p\<lparr>managerOptions := (managerOptions p)
                \<lparr>ActivatedProbes := ActivatedProbes (managerOptions p) @ selectors\<rparr>\<rparr>)"

text \<open>
  \<open>Init\<close>. Its last loop ranges over a Go map, whose keys are distinct, and appends the
  function of each key to the list of that key: the order of the iteration plays no part.
\<close>

definition Init :: "'f Extern \<Rightarrow> 'f Globals \<Rightarrow> 'f Probe \<Rightarrow> error option \<times> 'f Probe" where
  "Init E G p0 =
     (let p = (if \<not> EnableKernelFilters (config p0)
               then log WARN ''Forcing in-kernel filter policy to `pass`: filtering not enabled'' [] p0
               else p0);
          p = p\<lparr>managerOptions := NewDefaultOptions E\<rparr>
      in case (if SyscallMonitor (config p)
               then RegisterProbesSelectors (SyscallMonitorSelectors E) p
               else (None, p)) of
           (Some err, p) \<Rightarrow> (Some err, p)
         | (None, p) \<Rightarrow>
             (None, p\<lparr>onDiscardersFncs :=
                        (\<lambda>eventType. case allDiscarderFncs G eventType of
                                        None \<Rightarrow> onDiscardersFncs p eventType
                                      | Some fnc \<Rightarrow> onDiscardersFncs p eventType @ [fnc])\<rparr>))"

subsection \<open>Discarders, approvers and filter policies\<close>

fun discarderLoop ::
  "'f Extern \<Rightarrow> RuleSet \<Rightarrow> 'f Event \<Rightarrow> Field \<Rightarrow> 'f onDiscarderFnc list \<Rightarrow> 'f Probe \<Rightarrow>
   error option \<times> 'f Probe" where
  "discarderLoop E rs ev field [] p = (None, p)"
| "discarderLoop E rs ev field (fnc # fncs) p =
     (case GetFieldValue E ev field of
        Inl err \<Rightarrow> (Some err, p)
      | Inr v \<Rightarrow>
          (let discarder = \<lparr>Field = field, Value = v\<rparr>;
               p = p\<lparr>trace := trace p @ [Call_onDiscarderFnc (discarderName fnc) rs ev discarder]\<rparr>
           in case discarderRun fnc rs ev discarder of
                Some err \<Rightarrow> (Some err, p)
              | None \<Rightarrow> discarderLoop E rs ev field fncs p))"

definition OnNewDiscarder ::
  "'f Extern \<Rightarrow> RuleSet \<Rightarrow> 'f Event \<Rightarrow> Field \<Rightarrow> 'f Probe \<Rightarrow> error option \<times> 'f Probe" where
  "OnNewDiscarder E rs ev field p0 =
     (if \<not> EnableDiscarders (config p0) then (None, p0)
      else
        (let p = log TRACE ''New discarder event %+v for field %s\<newline>'' [ArgEvent ev, ArgStr field] p0
         in case GetFieldEventType E ev field of
              Inl err \<Rightarrow> (Some err, p)
            | Inr eventType \<Rightarrow> discarderLoop E rs ev field (onDiscardersFncs p eventType) p))"

text \<open>\<open>Map\<close> returns a map by its name, or nil.\<close>

definition Probe_Map :: "string \<Rightarrow> 'f Probe \<Rightarrow> MapHandle option" where
  "Probe_Map name p =
     (case manager p of
        None \<Rightarrow> None
      | Some mgr \<Rightarrow>
          (case GetMap mgr name of
             (m, ok, err) \<Rightarrow> if \<not> ok \<or> err \<noteq> None then None else m))"

text \<open>
  The key of the one slot of a policy table, declared outside this file: the 32-bit zero.
  A write to a kernel map either fails with the error the kernel gives, and writes
  nothing, or stores the value under the key.
\<close>

definition ZeroUint32MapItem :: uint32 where
  "ZeroUint32MapItem = 0"

definition Put :: "MapHandle \<Rightarrow> uint32 \<Rightarrow> FilterPolicy \<Rightarrow> 'f Probe \<Rightarrow> error option \<times> 'f Probe" where
  "Put table k v p =
     (let p = p\<lparr>trace := trace p @ [Call_Put table k v]\<rparr>
      in case kernelPutError p table of
           Some err \<Rightarrow> (Some err, p)
         | None \<Rightarrow> (None, p\<lparr>kernelMaps := (kernelMaps p)(table := (kernelMaps p table)(k \<mapsto> v))\<rparr>))"

definition ApplyFilterPolicy ::
  "eval_EventType \<Rightarrow> string \<Rightarrow> PolicyMode \<Rightarrow> PolicyFlag \<Rightarrow> 'f Probe \<Rightarrow> error option \<times> 'f Probe" where
  "ApplyFilterPolicy eventType tableName mode flags p0 =
     (let p = log INFO ''Setting in-kernel filter policy to `%s` for `%s`''
                [ArgMode mode, ArgStr eventType] p0
      in case Probe_Map tableName p of
           None \<Rightarrow> (Some (fmt_Errorf ''unable to find policy table `%s`'' [tableName]), p)
         | Some table \<Rightarrow>
             (let policy = \<lparr>Mode = mode, Flags = flags\<rparr>
              in Put table ZeroUint32MapItem policy p))"

definition ApplyApprovers ::
  "'f Globals \<Rightarrow> eval_EventType \<Rightarrow> Approvers \<Rightarrow> 'f Probe \<Rightarrow> error option \<times> 'f Probe" where
  "ApplyApprovers G eventType approvers p0 =
     (case allApproversFncs G eventType of
        None \<Rightarrow> (None, p0)
      | Some fnc \<Rightarrow>
          (let p = p0\<lparr>trace := trace p0 @ [Call_onApproversFnc (approverName fnc) approvers]\<rparr>
           in case approverRun fnc approvers of
                Some err \<Rightarrow>
                  (Some err,
                   log ERROR ''Error while adding approvers fallback in-kernel policy to `%s` for `%s`: %s''
                     [ArgMode PolicyModeAccept, ArgStr eventType, ArgErr err] p)
              | None \<Rightarrow> (None, p)))"

subsection \<open>Statistics\<close>

definition MetricPrefix :: string where
  "MetricPrefix = ''datadog.runtime_security''"

text \<open>
  The loop of \<open>SendStats\<close> over the indexes of the array of counters, with the tags
  of the metric of an event type (\<open>eventTypeTags\<close>). The rate of a metric is the
  constant 1.0 and is left out of the trace.
\<close>

definition eventTypeTags :: "'f Extern \<Rightarrow> EventType \<Rightarrow> string list" where
  "eventTypeTags E eventType = [''event_type:'' @ EventType_String E eventType]"






section \<open>Notions used in the statements\<close>

text \<open>The calls of the event handler in a trace, in their order.\<close>

definition handlerCall :: "'f Call \<Rightarrow> (EventHandler \<times> 'f Event) list" where
  "handlerCall c = (case c of Call_HandleEvent h ev \<Rightarrow> [(h, ev)] | _ \<Rightarrow> [])"

definition handlerCalls :: "'f Call list \<Rightarrow> (EventHandler \<times> 'f Event) list" where
  "handlerCalls tr = concat (map handlerCall tr)"

text \<open>The calls of the mount resolver and of the resolution routines in a trace.\<close>

definition isResolverCall :: "'f Call \<Rightarrow> bool" where
  "isResolverCall c =
     (case c of
        Call_ResolveMountPoint m \<Rightarrow> True
      | Call_ResolveRoot m \<Rightarrow> True
      | Call_Insert m \<Rightarrow> True
      | Call_Delete i \<Rightarrow> True
      | _ \<Rightarrow> False)"

definition resolverCalls :: "'f Call list \<Rightarrow> 'f Call list" where
  "resolverCalls tr = filter isResolverCall tr"

text \<open>A call that returns a value or an error returns a value.\<close>

definition succeeds :: "error + 'a \<Rightarrow> bool" where
  "succeeds r = (case r of Inl err \<Rightarrow> False | Inr v \<Rightarrow> True)"

text \<open>
  The decoder that the tag selects accepts the payload: the table of the switch, read as
  the spec words it (the tag fully determines which payload decoder runs, and an
  unrecognised tag is a decode failure).
\<close>

definition payloadDecodes :: "'f Extern \<Rightarrow> EventType \<Rightarrow> byte list \<Rightarrow> bool" where
  "payloadDecodes E t rest =
     (if t = FileOpenEventType E then succeeds (Open_UnmarshalBinary E rest)
      else if t = FileMkdirEventType E then succeeds (Mkdir_UnmarshalBinary E rest)
      else if t = FileRmdirEventType E then succeeds (Rmdir_UnmarshalBinary E rest)
      else if t = FileUnlinkEventType E then succeeds (Unlink_UnmarshalBinary E rest)
      else if t = FileRenameEventType E then succeeds (Rename_UnmarshalBinary E rest)
      else if t = FileChmodEventType E then succeeds (Chmod_UnmarshalBinary E rest)
      else if t = FileChownEventType E then succeeds (Chown_UnmarshalBinary E rest)
      else if t = FileUtimeEventType E then succeeds (Utimes_UnmarshalBinary E rest)
      else if t = FileLinkEventType E then succeeds (Link_UnmarshalBinary E rest)
      else if t = FileMountEventType E then succeeds (Mount_UnmarshalBinary E rest)
      else if t = FileUmountEventType E then succeeds (Umount_UnmarshalBinary E rest)
      else if t = FileSetXAttrEventType E then succeeds (SetXAttr_UnmarshalBinary E rest)
      else if t = FileRemoveXAttrEventType E then succeeds (RemoveXAttr_UnmarshalBinary E rest)
      else False)"

text \<open>Decoding a buffer succeeds: the header decodes, and so does the payload after it.\<close>

definition decodes :: "'f Extern \<Rightarrow> byte list \<Rightarrow> bool" where
  "decodes E data =
     (case Event_UnmarshalBinary E data (eventZero E) of
        Inl err \<Rightarrow> False
      | Inr (read, ev) \<Rightarrow> payloadDecodes E (Type ev) (drop (nat read) data))"

definition decodedType :: "'f Extern \<Rightarrow> byte list \<Rightarrow> EventType" where
  "decodedType E data =
     (case Event_UnmarshalBinary E data (eventZero E) of
        Inl err \<Rightarrow> 0
      | Inr (read, ev) \<Rightarrow> Type ev)"

text \<open>
  What the code outside the file is taken to guarantee: the header decoder reports a
  number of bytes read that lies within the buffer, the event type constants are
  distinct (the compiler rejects a switch with a repeated constant) and each of them
  indexes the array of counters.
\<close>

definition headerInBounds :: "'f Extern \<Rightarrow> byte list \<Rightarrow> bool" where
  "headerInBounds E data =
     (case Event_UnmarshalBinary E data (eventZero E) of
        Inl err \<Rightarrow> True
      | Inr (read, ev) \<Rightarrow> 0 \<le> read \<and> read \<le> int (length data))"

definition eventTypes :: "'f Extern \<Rightarrow> EventType list" where
  "eventTypes E =
     [FileOpenEventType E, FileMkdirEventType E, FileRmdirEventType E, FileUnlinkEventType E,
      FileRenameEventType E, FileChmodEventType E, FileChownEventType E, FileUtimeEventType E,
      FileLinkEventType E, FileMountEventType E, FileUmountEventType E, FileSetXAttrEventType E,
      FileRemoveXAttrEventType E]"

definition typesInRange :: "'f Extern \<Rightarrow> EventsStats \<Rightarrow> bool" where
  "typesInRange E st = list_all (\<lambda>t. t < length (PerEventType st)) (eventTypes E)"

section \<open>A concrete probe\<close>

text \<open>
  A small instance of the parameters, on which the statements are evaluated: the tag is
  the first byte of the buffer, a file payload is its first byte, a mount payload is the
  mount id and the parent, the constants are 1 to 13 in the order of the switch.
\<close>

definition ErrNotEnoughData :: error where
  "ErrNotEnoughData = Foreign ''not enough data''"

definition demoFile :: "byte list \<Rightarrow> error + nat" where
  "demoFile rest = (case rest of [] \<Rightarrow> Inl ErrNotEnoughData | b # bs \<Rightarrow> Inr (unat b))"

definition demoNames :: "string list" where
  "demoNames = [''unknown'', ''open'', ''mkdir'', ''rmdir'', ''unlink'', ''rename'', ''chmod'',
                ''chown'', ''utimes'', ''link'', ''mount'', ''umount'', ''setxattr'', ''removexattr'']"

definition demoExtern :: "nat Extern" where
  "demoExtern =
     \<lparr>Event_UnmarshalBinary =
        (\<lambda>data ev. case data of [] \<Rightarrow> Inl ErrNotEnoughData | b # bs \<Rightarrow> Inr (1, ev\<lparr>Type := unat b\<rparr>)),
      Open_UnmarshalBinary = demoFile, Mkdir_UnmarshalBinary = demoFile,
      Rmdir_UnmarshalBinary = demoFile, Unlink_UnmarshalBinary = demoFile,
      Rename_UnmarshalBinary = demoFile, Chmod_UnmarshalBinary = demoFile,
      Chown_UnmarshalBinary = demoFile, Utimes_UnmarshalBinary = demoFile,
      Link_UnmarshalBinary = demoFile,
      Mount_UnmarshalBinary =
        (\<lambda>rest. case rest of
                  i # par # bs \<Rightarrow>
                    Inr \<lparr>Mount_MountID = ucast i, ParentMountID = ucast par, MountPointStr = [],
                         RootStr = [], Device = 0\<rparr>
                | _ \<Rightarrow> Inl ErrNotEnoughData),
      Umount_UnmarshalBinary =
        (\<lambda>rest. case rest of [] \<Rightarrow> Inl ErrNotEnoughData | i # bs \<Rightarrow> Inr \<lparr>Umount_MountID = ucast i\<rparr>),
      SetXAttr_UnmarshalBinary = demoFile, RemoveXAttr_UnmarshalBinary = demoFile,
      FileOpenEventType = 1, FileMkdirEventType = 2, FileRmdirEventType = 3,
      FileUnlinkEventType = 4, FileRenameEventType = 5, FileChmodEventType = 6,
      FileChownEventType = 7, FileUtimeEventType = 8, FileLinkEventType = 9,
      FileMountEventType = 10, FileUmountEventType = 11, FileSetXAttrEventType = 12,
      FileRemoveXAttrEventType = 13,
      EventType_String = (\<lambda>t. if t < length demoNames then demoNames ! t else ''unknown''),
      fileZero = 0,
      ResolveMountPoint = (\<lambda>r m. m\<lparr>MountPointStr := ''/data''\<rparr>),
      ResolveRoot = (\<lambda>r m. m\<lparr>RootStr := ''/''\<rparr>),
      GetFieldEventType =
        (\<lambda>ev field. if field = ''open.filename'' then Inr ''open'' else Inl (Foreign ''field not found'')),
      GetFieldValue =
        (\<lambda>ev field. if field = ''open.filename'' then Inr (StringValue ''/etc/passwd'')
                     else Inl (Foreign ''field not found'')),
      NewDefaultOptions = \<lparr>ActivatedProbes = []\<rparr>,
      SyscallMonitorSelectors = [''sys_enter'', ''sys_exit'']\<rparr>"

definition demoProbe :: "nat Probe" where
  "demoProbe =
     \<lparr>manager = Some \<lparr>GetMap = (\<lambda>name. if name = ''open_policy'' then (Some ''open_policy'', True, None)
                                       else (None, False, None))\<rparr>,
      managerOptions = \<lparr>ActivatedProbes = []\<rparr>,
      config = \<lparr>EnableKernelFilters = False, EnableDiscarders = True, SyscallMonitor = False\<rparr>,
      handler = Some (EventHandler ''module''),
      resolvers = \<lparr>MountResolver = Map.empty\<rparr>,
      onDiscardersFncs = (\<lambda>eventType. []),
      syscallMonitor = None,
      eventsStats = \<lparr>Lost = 0, PerEventType = replicate 14 0\<rparr>,
      event = eventZero demoExtern,
      kernelMaps = (\<lambda>table. Map.empty),
      kernelPutError = (\<lambda>table. None),
      trace = []\<rparr>"

definition demoEvent :: "nat Event" where
  "demoEvent = (eventZero demoExtern)\<lparr>Type := 1, Open := 7\<rparr>"

section \<open>Notions used in the proofs\<close>

text \<open>
  What the switch leaves alone: the statistics, the handler and the handler's calls.
\<close>

definition keeps :: "'f Probe \<Rightarrow> 'f Probe \<Rightarrow> bool" where
  "keeps p p' = (eventsStats p' = eventsStats p \<and> handler p' = handler p \<and>
                 handlerCalls (trace p') = handlerCalls (trace p))"

text \<open>
  How the switch leaves when the offset lies within the buffer: it returns early exactly
  when the payload does not decode, and then the resolvers are as before.
\<close>

definition switchOutcome :: "'f Probe \<Rightarrow> 'f Probe flow \<Rightarrow> bool \<Rightarrow> bool" where
  "switchOutcome p r ok =
     (case r of
        Panic \<Rightarrow> False
      | Return p' \<Rightarrow> \<not> ok \<and> keeps p p' \<and> resolvers p' = resolvers p
      | Next p' \<Rightarrow> ok \<and> keeps p p')"

section \<open>Further notions and instances\<close>

text \<open>The writes to kernel maps in a trace.\<close>

definition isPut :: "'f Call \<Rightarrow> bool" where
  "isPut c = (case c of Call_Put table k v \<Rightarrow> True | _ \<Rightarrow> False)"

definition putCalls :: "'f Call list \<Rightarrow> 'f Call list" where
  "putCalls tr = filter isPut tr"

text \<open>
  A discarder function returns no error on a discarder notification; the call of a
  discarder function as it stands in the trace.
\<close>

definition discarderOk :: "RuleSet \<Rightarrow> 'f Event \<Rightarrow> Discarder \<Rightarrow> 'f onDiscarderFnc \<Rightarrow> bool" where
  "discarderOk rs ev d fnc = (discarderRun fnc rs ev d = None)"

definition discarderCall :: "RuleSet \<Rightarrow> 'f Event \<Rightarrow> Discarder \<Rightarrow> 'f onDiscarderFnc \<Rightarrow> 'f Call" where
  "discarderCall rs ev d fnc = Call_onDiscarderFnc (discarderName fnc) rs ev d"

text \<open>
  Two discarder functions, of which the first fails, an approver function that fails on a
  non-empty set of approvers, and the registries that \<open>init\<close> builds from them.
\<close>

definition demoFirst :: "nat onDiscarderFnc" where
  "demoFirst = \<lparr>discarderName = ''first'', discarderRun = (\<lambda>rs ev d. Some (Foreign ''first failed''))\<rparr>"

definition demoSecond :: "nat onDiscarderFnc" where
  "demoSecond = \<lparr>discarderName = ''second'', discarderRun = (\<lambda>rs ev d. None)\<rparr>"

definition demoDiscarderProbe :: "nat Probe" where
  "demoDiscarderProbe =
     demoProbe\<lparr>onDiscardersFncs := (\<lambda>eventType. if eventType = ''open'' then [demoFirst, demoSecond] else [])\<rparr>"

definition demoApprover :: onApproversFnc where
  "demoApprover =
     \<lparr>approverName = ''openOnNewApprovers'',
      approverRun = (\<lambda>approvers. if approvers = [] then None else Some (Foreign ''approver failed''))\<rparr>"

definition demoGlobals :: "nat Globals" where
  "demoGlobals = init demoApprover demoSecond demoSecond emptyGlobals"

section \<open>Notions and instances for the statistics\<close>


definition countCall :: "'f Extern \<Rightarrow> int64 list \<Rightarrow> nat \<Rightarrow> 'f Call" where
  "countCall E cs i =
     Call_Count (MetricPrefix @ ''.events.received'') (cs ! i) (eventTypeTags E i)"

definition isReceived :: "'f Call \<Rightarrow> bool" where
  "isReceived c =
     (case c of Call_Count name v tags \<Rightarrow> name = MetricPrefix @ ''.events.received'' | _ \<Rightarrow> False)"

definition receivedCalls :: "'f Call list \<Rightarrow> 'f Call list" where
  "receivedCalls tr = filter isReceived tr"




section \<open>Properties\<close>

subsection \<open>Auxiliary facts\<close>

lemma handlerCalls_append [simp]: "handlerCalls (xs @ ys) = handlerCalls xs @ handlerCalls ys"
  by (simp add: handlerCalls_def)

lemma handlerCalls_simps [simp]:
  "handlerCalls [] = []"
  "handlerCalls [Call_HandleEvent h ev] = [(h, ev)]"
  "handlerCalls [Log l fmt args] = []"
  by (simp_all add: handlerCalls_def handlerCall_def)

subsection \<open>Dispatching an event\<close>

text \<open>
  Claim C9. \<open>DispatchEvent\<close> on a probe with no registered handler (the handler is nil)
  is a no-op: it returns the probe as it was, so it calls nothing and does not fail.
  When a handler is registered, it is called exactly once, with the event: the trace
  grows by that one call.
\<close>

theorem DispatchEvent_nil_noop_else_once:
  "(handler p = None \<longrightarrow> DispatchEvent ev p = p) \<and>
   (\<forall>h. handler p = Some h \<longrightarrow>
      DispatchEvent ev p = p\<lparr>trace := trace p @ [Call_HandleEvent h ev]\<rparr> \<and>
      handlerCalls (trace (DispatchEvent ev p)) = handlerCalls (trace p) @ [(h, ev)])"
  by (simp add: DispatchEvent_def)

theorem DispatchEvent_nil_noop_else_once_witness:
  "handler (SetEventHandler None demoProbe) = None \<and>
   DispatchEvent demoEvent (SetEventHandler None demoProbe) = SetEventHandler None demoProbe \<and>
   handler demoProbe = Some (EventHandler ''module'') \<and>
   handlerCalls (trace (DispatchEvent demoEvent demoProbe)) = [(EventHandler ''module'', demoEvent)]"
  using DispatchEvent_nil_noop_else_once [of "SetEventHandler None demoProbe" demoEvent]
        DispatchEvent_nil_noop_else_once [of demoProbe demoEvent]
  by (simp add: SetEventHandler_def demoProbe_def)

subsection \<open>Handling an event\<close>

lemma fileCase_summary:
  assumes "0 \<le> off" "off \<le> int (length data)"
  shows "switchOutcome p (fileCase u fmt store data off p) (succeeds (u (drop (nat off) data)))"
  using assms
  by (simp add: switchOutcome_def keeps_def fileCase_def slice_from_def succeeds_def log_def split: sum.splits)

lemma mountCase_summary:
  assumes "0 \<le> off" "off \<le> int (length data)"
  shows "switchOutcome p (mountCase E data off p) (succeeds (Mount_UnmarshalBinary E (drop (nat off) data)))"
  using assms
  by (simp add: switchOutcome_def keeps_def mountCase_def slice_from_def succeeds_def log_def Mount_ResolveMountPoint_def
      Mount_ResolveRoot_def MountResolver_Insert_def handlerCalls_def handlerCall_def split: sum.splits)

lemma umountCase_summary:
  assumes "0 \<le> off" "off \<le> int (length data)"
  shows "switchOutcome p (umountCase E data off p) (succeeds (Umount_UnmarshalBinary E (drop (nat off) data)))"
  using assms
  by (simp add: switchOutcome_def keeps_def umountCase_def slice_from_def succeeds_def log_def MountResolver_Delete_def
       handlerCalls_def handlerCall_def Let_def split: sum.splits option.splits)

lemma default_summary:
  "switchOutcome p (Return (log l fmt args p)) False"
  by (simp add: switchOutcome_def keeps_def log_def handlerCalls_def handlerCall_def)

lemma switch_summary:
  assumes "0 \<le> off" "off \<le> int (length data)"
  shows "switchOutcome p (switch_eventType E t data off p) (payloadDecodes E t (drop (nat off) data))"
  unfolding switch_eventType_def payloadDecodes_def
  by (simp add: fileCase_summary [OF assms] mountCase_summary [OF assms] umountCase_summary [OF assms]
        default_summary)

lemma payloadDecodes_eventTypes: "payloadDecodes E t rest \<Longrightarrow> t \<in> set (eventTypes E)"
  by (simp add: payloadDecodes_def eventTypes_def split: if_splits)

lemma typesInRange_D: "typesInRange E st \<Longrightarrow> t \<in> set (eventTypes E) \<Longrightarrow> t < length (PerEventType st)"
  by (simp add: typesInRange_def list_all_iff)

lemma afterSwitch_in_range:
  assumes "t < length (PerEventType (eventsStats p))"
  shows "\<exists>p'. afterSwitch t p = Return p' \<and>
           eventsStats p' = (eventsStats p)\<lparr>PerEventType := (PerEventType (eventsStats p))[t := PerEventType (eventsStats p) ! t + 1]\<rparr> \<and>
           handlerCalls (trace p') = handlerCalls (trace p) @ (case handler p of None \<Rightarrow> [] | Some h \<Rightarrow> [(h, event p')]) \<and>
           resolvers p' = resolvers p \<and> event p' = event p"
  using assms
  by (simp add: afterSwitch_def CountEventType_def Let_def log_def DispatchEvent_def handlerCalls_def handlerCall_def
           split: option.splits)

text \<open>
  Claim C1. When the header decoder reports a length within the buffer and the event type
  constants index the array of counters, \<open>handleEvent\<close> returns, and: if decoding
  succeeds (the header decodes, the tag is one of the switch and the decoder of that
  variant accepts the payload) the counter of the decoded type, and no other, is
  incremented by one and the registered handler is called exactly once, with the decoded
  event (not at all when no handler is registered); if decoding fails, on the header, on
  an unrecognised tag or on the payload, the statistics are untouched and the handler is
  not called.
\<close>

theorem handleEvent_counts_and_dispatches_iff_decodes:
  assumes "headerInBounds E data" and "typesInRange E (eventsStats p)"
  shows "\<exists>p'. handleEvent E CPU data p = Return p' \<and>
          (if decodes E data
           then eventsStats p' =
                  (eventsStats p)\<lparr>PerEventType :=
                     (PerEventType (eventsStats p))
                       [decodedType E data := PerEventType (eventsStats p) ! decodedType E data + 1]\<rparr> \<and>
                handlerCalls (trace p') =
                  handlerCalls (trace p) @ (case handler p of None \<Rightarrow> [] | Some h \<Rightarrow> [(h, event p')])
           else eventsStats p' = eventsStats p \<and>
                handlerCalls (trace p') = handlerCalls (trace p) \<and>
                resolvers p' = resolvers p)"
proof (cases "Event_UnmarshalBinary E data (eventZero E)")
  case (Inl err)
  then show ?thesis
    by (simp add: handleEvent_def zeroEvent_def decodes_def log_def handlerCalls_def handlerCall_def)
next
  case (Inr r)
  obtain read ev where r: "r = (read, ev)" by (cases r)
  define q where "q = log TRACE ''Decoding event %s'' [ArgEventType (Type ev)] (p\<lparr>event := ev\<rparr>)"
  have bounds: "0 \<le> read" "read \<le> int (length data)"
    using assms(1) Inr r by (simp_all add: headerInBounds_def)
  have q: "eventsStats q = eventsStats p" "handler q = handler p" "resolvers q = resolvers p"
          "handlerCalls (trace q) = handlerCalls (trace p)"
    by (simp_all add: q_def log_def handlerCalls_def handlerCall_def)
  have h: "handleEvent E CPU data p =
             (case switch_eventType E (Type ev) data read q of
                Panic \<Rightarrow> Panic | Return p' \<Rightarrow> Return p' | Next p' \<Rightarrow> afterSwitch (Type ev) p')"
    using Inr r by (simp add: handleEvent_def zeroEvent_def q_def Let_def cong: flow.case_cong)
  have d: "decodes E data = payloadDecodes E (Type ev) (drop (nat read) data)"
          "decodedType E data = Type ev"
    using Inr r by (simp_all add: decodes_def decodedType_def)
  have s: "switchOutcome q (switch_eventType E (Type ev) data read q)
             (payloadDecodes E (Type ev) (drop (nat read) data))"
    by (rule switch_summary [OF bounds])
  show ?thesis
  proof (cases "switch_eventType E (Type ev) data read q")
    case Panic
    with s show ?thesis by (simp add: switchOutcome_def)
  next
    case (Return p')
    with s q h d show ?thesis by (simp add: switchOutcome_def keeps_def)
  next
    case (Next p')
    with s have ok: "payloadDecodes E (Type ev) (drop (nat read) data)" and k: "keeps q p'"
      by (simp_all add: switchOutcome_def)
    have "Type ev < length (PerEventType (eventsStats p'))"
      using typesInRange_D [OF assms(2) payloadDecodes_eventTypes [OF ok]] k q by (simp add: keeps_def)
    from afterSwitch_in_range [OF this] obtain p'' where
      "afterSwitch (Type ev) p' = Return p''"
      "eventsStats p'' = (eventsStats p')\<lparr>PerEventType := (PerEventType (eventsStats p'))[Type ev := PerEventType (eventsStats p') ! Type ev + 1]\<rparr>"
      "handlerCalls (trace p'') = handlerCalls (trace p') @ (case handler p' of None \<Rightarrow> [] | Some h \<Rightarrow> [(h, event p'')])"
      by blast
    with Next h d ok k q show ?thesis by (simp add: keeps_def)
  qed
qed

theorem handleEvent_counts_and_dispatches_iff_decodes_witness:
  "headerInBounds demoExtern [1, 7] \<and> typesInRange demoExtern (eventsStats demoProbe) \<and>
   decodes demoExtern [1, 7] \<and>
   (\<exists>p'. handleEvent demoExtern 0 [1, 7] demoProbe = Return p' \<and>
      PerEventType (eventsStats p') = [0, 1, 0, 0, 0, 0, 0, 0, 0, 0, 0, 0, 0, 0] \<and>
      handlerCalls (trace p') = [(EventHandler ''module'', event p')]) \<and>
   headerInBounds demoExtern [77] \<and> \<not> decodes demoExtern [77] \<and>
   (\<exists>p'. handleEvent demoExtern 0 [77] demoProbe = Return p' \<and>
      PerEventType (eventsStats p') = replicate 14 0 \<and> handlerCalls (trace p') = [])"
proof -
  have a: "headerInBounds demoExtern [1, 7]" "headerInBounds demoExtern [77]"
    by (simp_all add: headerInBounds_def demoExtern_def)
  have b: "typesInRange demoExtern (eventsStats demoProbe)"
    by (simp add: typesInRange_def eventTypes_def demoExtern_def demoProbe_def)
  have c: "decodes demoExtern [1, 7]" "decodedType demoExtern [1, 7] = 1"
    by (simp_all add: decodes_def decodedType_def payloadDecodes_def demoExtern_def demoFile_def succeeds_def)
  have d: "\<not> decodes demoExtern [77]"
    by (simp add: decodes_def payloadDecodes_def demoExtern_def)
  have e: "PerEventType (eventsStats demoProbe) = replicate 14 0" "handler demoProbe = Some (EventHandler ''module'')"
     "trace demoProbe = []"
    by (simp_all add: demoProbe_def)
  show ?thesis
    using handleEvent_counts_and_dispatches_iff_decodes [OF a(1) b, of 0]
          handleEvent_counts_and_dispatches_iff_decodes [OF a(2) b, of 0]
    using a b c d e by (auto simp add: numeral_eq_Suc)
qed

subsection \<open>Mount and umount events\<close>

lemma resolverCalls_append [simp]: "resolverCalls (xs @ ys) = resolverCalls xs @ resolverCalls ys"
  by (simp add: resolverCalls_def)

lemma resolverCalls_simps [simp]:
  "resolverCalls [] = []"
  "resolverCalls (Log l fmt args # tr) = resolverCalls tr"
  "resolverCalls (Call_HandleEvent h ev # tr) = resolverCalls tr"
  "resolverCalls (Call_ResolveMountPoint m # tr) = Call_ResolveMountPoint m # resolverCalls tr"
  "resolverCalls (Call_ResolveRoot m # tr) = Call_ResolveRoot m # resolverCalls tr"
  "resolverCalls (Call_Insert m # tr) = Call_Insert m # resolverCalls tr"
  "resolverCalls (Call_Delete i # tr) = Call_Delete i # resolverCalls tr"
  by (simp_all add: resolverCalls_def isResolverCall_def)

lemma mount_not_earlier:
  assumes "distinct (eventTypes E)"
  shows "FileMountEventType E \<noteq> FileOpenEventType E \<and> FileMountEventType E \<noteq> FileMkdirEventType E \<and>
         FileMountEventType E \<noteq> FileRmdirEventType E \<and> FileMountEventType E \<noteq> FileUnlinkEventType E \<and>
         FileMountEventType E \<noteq> FileRenameEventType E \<and> FileMountEventType E \<noteq> FileChmodEventType E \<and>
         FileMountEventType E \<noteq> FileChownEventType E \<and> FileMountEventType E \<noteq> FileUtimeEventType E \<and>
         FileMountEventType E \<noteq> FileLinkEventType E"
  using assms by (auto simp add: eventTypes_def)

lemma umount_not_earlier:
  assumes "distinct (eventTypes E)"
  shows "FileUmountEventType E \<noteq> FileOpenEventType E \<and> FileUmountEventType E \<noteq> FileMkdirEventType E \<and>
         FileUmountEventType E \<noteq> FileRmdirEventType E \<and> FileUmountEventType E \<noteq> FileUnlinkEventType E \<and>
         FileUmountEventType E \<noteq> FileRenameEventType E \<and> FileUmountEventType E \<noteq> FileChmodEventType E \<and>
         FileUmountEventType E \<noteq> FileChownEventType E \<and> FileUmountEventType E \<noteq> FileUtimeEventType E \<and>
         FileUmountEventType E \<noteq> FileLinkEventType E \<and> FileUmountEventType E \<noteq> FileMountEventType E"
  using assms by (auto simp add: eventTypes_def)

lemma switch_mount:
  assumes "distinct (eventTypes E)"
  shows "switch_eventType E (FileMountEventType E) data off p = mountCase E data off p"
  using mount_not_earlier [OF assms] by (simp add: switch_eventType_def)

lemma switch_umount:
  assumes "distinct (eventTypes E)"
  shows "switch_eventType E (FileUmountEventType E) data off p = umountCase E data off p"
  using umount_not_earlier [OF assms] by (simp add: switch_eventType_def)

lemma demo_header:
  "Event_UnmarshalBinary demoExtern (b # bs) (eventZero demoExtern) =
     Inr (1, (eventZero demoExtern)\<lparr>Type := unat b\<rparr>)"
  by (simp add: demoExtern_def)

lemma demo_distinct: "distinct (eventTypes demoExtern)"
  by (simp add: eventTypes_def demoExtern_def)

text \<open>
  Claim C2. For a buffer whose header decodes to the mount type, \<open>handleEvent\<close>
  returns, and: when the mount payload decodes, the calls to the resolvers are, in this
  order, the resolution of the mount point, the resolution of the root (on the result of
  the first) and then the insert (of the result of both), and the cache gains exactly that
  resolved entry under its mount id; when the mount payload does not decode, nothing is
  resolved or inserted and the cache is as before.
\<close>

theorem handleEvent_mount_resolves_before_insert:
  assumes "Event_UnmarshalBinary E data (eventZero E) = Inr (read, ev)"
      and "0 \<le> read" and "read \<le> int (length data)"
      and "Type ev = FileMountEventType E"
      and "distinct (eventTypes E)"
      and "FileMountEventType E < length (PerEventType (eventsStats p))"
  shows "\<exists>p'. handleEvent E CPU data p = Return p' \<and>
          (case Mount_UnmarshalBinary E (drop (nat read) data) of
             Inl err \<Rightarrow>
               resolverCalls (trace p') = resolverCalls (trace p) \<and> resolvers p' = resolvers p
           | Inr m \<Rightarrow>
               resolverCalls (trace p') =
                 resolverCalls (trace p) @
                   [Call_ResolveMountPoint m,
                    Call_ResolveRoot (ResolveMountPoint E (resolvers p) m),
                    Call_Insert (ResolveRoot E (resolvers p) (ResolveMountPoint E (resolvers p) m))] \<and>
               MountResolver (resolvers p') =
                 (MountResolver (resolvers p))
                   (Mount_MountID (ResolveRoot E (resolvers p) (ResolveMountPoint E (resolvers p) m)) \<mapsto>
                      ResolveRoot E (resolvers p) (ResolveMountPoint E (resolvers p) m)))"
  using assms
  by (simp add: handleEvent_def zeroEvent_def Let_def switch_mount mountCase_def slice_from_def log_def
        Mount_ResolveMountPoint_def Mount_ResolveRoot_def MountResolver_Insert_def
        afterSwitch_def CountEventType_def DispatchEvent_def
      split: sum.splits option.splits)

theorem handleEvent_mount_resolves_before_insert_witness:
  "distinct (eventTypes demoExtern) \<and>
   Event_UnmarshalBinary demoExtern [10, 3, 1] (eventZero demoExtern) =
     Inr (1, (eventZero demoExtern)\<lparr>Type := 10\<rparr>) \<and>
   FileMountEventType demoExtern = 10 \<and>
   (\<exists>p'. handleEvent demoExtern 0 [10, 3, 1] demoProbe = Return p' \<and>
      resolverCalls (trace p') =
        [Call_ResolveMountPoint
           \<lparr>Mount_MountID = 3, ParentMountID = 1, MountPointStr = [], RootStr = [], Device = 0\<rparr>,
         Call_ResolveRoot
           \<lparr>Mount_MountID = 3, ParentMountID = 1, MountPointStr = ''/data'', RootStr = [], Device = 0\<rparr>,
         Call_Insert
           \<lparr>Mount_MountID = 3, ParentMountID = 1, MountPointStr = ''/data'', RootStr = ''/'', Device = 0\<rparr>] \<and>
      MountResolver (resolvers p') 3 =
        Some \<lparr>Mount_MountID = 3, ParentMountID = 1, MountPointStr = ''/data'', RootStr = ''/'', Device = 0\<rparr>) \<and>
   (\<exists>p'. handleEvent demoExtern 0 [10, 3] demoProbe = Return p' \<and>
      resolverCalls (trace p') = [] \<and> MountResolver (resolvers p') 3 = None)"
proof -
  have h: "Event_UnmarshalBinary demoExtern [10, 3, 1] (eventZero demoExtern) =
             Inr (1, (eventZero demoExtern)\<lparr>Type := 10\<rparr>)"
          "Event_UnmarshalBinary demoExtern [10, 3] (eventZero demoExtern) =
             Inr (1, (eventZero demoExtern)\<lparr>Type := 10\<rparr>)"
    by (simp_all add: demo_header)
  have t: "Type ((eventZero demoExtern)\<lparr>Type := 10\<rparr>) = FileMountEventType demoExtern"
    by (simp add: demoExtern_def)
  have r: "FileMountEventType demoExtern < length (PerEventType (eventsStats demoProbe))"
    by (simp add: demoExtern_def demoProbe_def)
  have m: "Mount_UnmarshalBinary demoExtern [3, 1] =
             Inr \<lparr>Mount_MountID = 3, ParentMountID = 1, MountPointStr = [], RootStr = [], Device = 0\<rparr>"
          "Mount_UnmarshalBinary demoExtern [3] = Inl ErrNotEnoughData"
    by (simp_all add: demoExtern_def)
  have e: "ResolveMountPoint demoExtern = (\<lambda>r m. m\<lparr>MountPointStr := ''/data''\<rparr>)"
          "ResolveRoot demoExtern = (\<lambda>r m. m\<lparr>RootStr := ''/''\<rparr>)"
          "FileMountEventType demoExtern = 10"
          "trace demoProbe = []" "MountResolver (resolvers demoProbe) = Map.empty"
    by (simp_all add: demoExtern_def demoProbe_def)
  show ?thesis
    using handleEvent_mount_resolves_before_insert [OF h(1) _ _ t demo_distinct r, of 0]
          handleEvent_mount_resolves_before_insert [OF h(2) _ _ t demo_distinct r, of 0]
    by (auto simp add: h m e demo_distinct)
qed

text \<open>
  Claim C4. For a buffer that decodes to an umount event whose mount id is not in the
  cache, \<open>handleEvent\<close> returns after logging the failure of the delete; it still
  increments the counter of the umount type and still calls the registered handler, and
  the resolvers (the cache) are as before.
\<close>

theorem handleEvent_umount_missing_id_not_fatal:
  assumes "Event_UnmarshalBinary E data (eventZero E) = Inr (read, ev)"
      and "0 \<le> read" and "read \<le> int (length data)"
      and "Type ev = FileUmountEventType E"
      and "distinct (eventTypes E)"
      and "FileUmountEventType E < length (PerEventType (eventsStats p))"
      and "Umount_UnmarshalBinary E (drop (nat read) data) = Inr u"
      and "MountResolver (resolvers p) (Umount_MountID u) = None"
  shows "\<exists>p'. handleEvent E CPU data p = Return p' \<and>
          event p' = ev\<lparr>Umount := u\<rparr> \<and>
          trace p' =
            trace p @
              [Log TRACE ''Decoding event %s'' [ArgEventType (FileUmountEventType E)],
               Call_Delete (Umount_MountID u),
               Log ERROR ''failed to delete mount point %d from cache: %s''
                 [ArgUint32 (Umount_MountID u), ArgErr ErrMountNotFound],
               Log TRACE ''Dispatching event %+v\<newline>'' [ArgEvent (ev\<lparr>Umount := u\<rparr>)]] @
              (case handler p of None \<Rightarrow> [] | Some h \<Rightarrow> [Call_HandleEvent h (ev\<lparr>Umount := u\<rparr>)]) \<and>
          eventsStats p' =
            (eventsStats p)\<lparr>PerEventType :=
               (PerEventType (eventsStats p))
                 [FileUmountEventType E := PerEventType (eventsStats p) ! FileUmountEventType E + 1]\<rparr> \<and>
          resolvers p' = resolvers p"
  using assms
  by (simp add: handleEvent_def zeroEvent_def Let_def switch_umount umountCase_def slice_from_def log_def
        MountResolver_Delete_def afterSwitch_def CountEventType_def DispatchEvent_def
      split: option.splits)

theorem handleEvent_umount_missing_id_not_fatal_witness:
  "distinct (eventTypes demoExtern) \<and>
   Umount_UnmarshalBinary demoExtern [3] = Inr \<lparr>Umount_MountID = 3\<rparr> \<and>
   MountResolver (resolvers demoProbe) 3 = None \<and>
   (\<exists>p'. handleEvent demoExtern 0 [11, 3] demoProbe = Return p' \<and>
      trace p' =
        [Log TRACE ''Decoding event %s'' [ArgEventType 11],
         Call_Delete 3,
         Log ERROR ''failed to delete mount point %d from cache: %s'' [ArgUint32 3, ArgErr ErrMountNotFound],
         Log TRACE ''Dispatching event %+v\<newline>'' [ArgEvent (event p')],
         Call_HandleEvent (EventHandler ''module'') (event p')] \<and>
      PerEventType (eventsStats p') = [0, 0, 0, 0, 0, 0, 0, 0, 0, 0, 0, 1, 0, 0] \<and>
      resolvers p' = resolvers demoProbe)"
proof -
  have h: "Event_UnmarshalBinary demoExtern [11, 3] (eventZero demoExtern) =
             Inr (1, (eventZero demoExtern)\<lparr>Type := 11\<rparr>)"
    by (simp add: demo_header)
  have t: "Type ((eventZero demoExtern)\<lparr>Type := 11\<rparr>) = FileUmountEventType demoExtern"
    by (simp add: demoExtern_def)
  have r: "FileUmountEventType demoExtern < length (PerEventType (eventsStats demoProbe))"
    by (simp add: demoExtern_def demoProbe_def)
  have u: "Umount_UnmarshalBinary demoExtern (drop (nat 1) [11, 3]) = Inr \<lparr>Umount_MountID = 3\<rparr>"
          "Umount_UnmarshalBinary demoExtern [3] = Inr \<lparr>Umount_MountID = 3\<rparr>"
    by (simp_all add: demoExtern_def)
  have n: "MountResolver (resolvers demoProbe) (Umount_MountID \<lparr>Umount_MountID = 3\<rparr>) = None"
    by (simp add: demoProbe_def)
  have e: "FileUmountEventType demoExtern = 11" "trace demoProbe = []"
          "handler demoProbe = Some (EventHandler ''module'')"
          "PerEventType (eventsStats demoProbe) = replicate 14 0"
    by (simp_all add: demoExtern_def demoProbe_def)
  show ?thesis
    using handleEvent_umount_missing_id_not_fatal [OF h _ _ t demo_distinct r u(1) n, of 0]
    using n by (auto simp add: u e demo_distinct numeral_eq_Suc)
qed

subsection \<open>Discarders and approvers\<close>

lemma discarderLoop_char:
  assumes "GetFieldValue E ev field = Inr v"
  shows "discarderLoop E rs ev field fncs p =
           (case dropWhile (discarderOk rs ev \<lparr>Field = field, Value = v\<rparr>) fncs of
              [] \<Rightarrow> None
            | fnc # rest \<Rightarrow> discarderRun fnc rs ev \<lparr>Field = field, Value = v\<rparr>,
            p\<lparr>trace := trace p @
                 map (discarderCall rs ev \<lparr>Field = field, Value = v\<rparr>)
                   (takeWhile (discarderOk rs ev \<lparr>Field = field, Value = v\<rparr>) fncs @
                    take 1 (dropWhile (discarderOk rs ev \<lparr>Field = field, Value = v\<rparr>) fncs))\<rparr>)"
  using assms
proof (induction fncs arbitrary: p)
  case Nil
  then show ?case by simp
next
  case (Cons fnc fncs)
  show ?case
  proof (cases "discarderRun fnc rs ev \<lparr>Field = field, Value = v\<rparr>")
    case None
    then show ?thesis
      using Cons by (simp add: discarderOk_def discarderCall_def Let_def)
  next
    case (Some err)
    then show ?thesis
      using Cons.prems by (simp add: discarderOk_def discarderCall_def Let_def)
  qed
qed

text \<open>
  Claim C3. With discarders enabled, for a field whose event type and value the event
  yields, \<open>OnNewDiscarder\<close> calls the functions registered for that event type in the
  order of their registration, up to and including the first one that returns an error:
  the functions after it are not called, and its error is the result. When none fails,
  all are called and the result is nil. (With two functions of which the first fails,
  only the first is called and its error is returned: this is the witness.)
\<close>

theorem OnNewDiscarder_in_order_first_error_aborts:
  assumes "EnableDiscarders (config p)"
      and "GetFieldEventType E ev field = Inr eventType"
      and "GetFieldValue E ev field = Inr v"
  shows "OnNewDiscarder E rs ev field p =
           (case dropWhile (discarderOk rs ev \<lparr>Field = field, Value = v\<rparr>) (onDiscardersFncs p eventType) of
              [] \<Rightarrow> None
            | fnc # rest \<Rightarrow> discarderRun fnc rs ev \<lparr>Field = field, Value = v\<rparr>,
            p\<lparr>trace := trace p @
                 Log TRACE ''New discarder event %+v for field %s\<newline>'' [ArgEvent ev, ArgStr field] #
                 map (discarderCall rs ev \<lparr>Field = field, Value = v\<rparr>)
                   (takeWhile (discarderOk rs ev \<lparr>Field = field, Value = v\<rparr>) (onDiscardersFncs p eventType) @
                    take 1 (dropWhile (discarderOk rs ev \<lparr>Field = field, Value = v\<rparr>)
                              (onDiscardersFncs p eventType)))\<rparr>)"
  using assms
  by (simp add: OnNewDiscarder_def log_def discarderLoop_char)

theorem OnNewDiscarder_in_order_first_error_aborts_witness:
  "EnableDiscarders (config demoDiscarderProbe) \<and>
   GetFieldEventType demoExtern demoEvent ''open.filename'' = Inr ''open'' \<and>
   GetFieldValue demoExtern demoEvent ''open.filename'' = Inr (StringValue ''/etc/passwd'') \<and>
   onDiscardersFncs demoDiscarderProbe ''open'' = [demoFirst, demoSecond] \<and>
   OnNewDiscarder demoExtern ''ruleset'' demoEvent ''open.filename'' demoDiscarderProbe =
     (Some (Foreign ''first failed''),
      demoDiscarderProbe\<lparr>trace :=
        [Log TRACE ''New discarder event %+v for field %s\<newline>'' [ArgEvent demoEvent, ArgStr ''open.filename''],
         Call_onDiscarderFnc ''first'' ''ruleset'' demoEvent
           \<lparr>Field = ''open.filename'', Value = StringValue ''/etc/passwd''\<rparr>]\<rparr>)"
proof -
  have a: "EnableDiscarders (config demoDiscarderProbe)"
    by (simp add: demoDiscarderProbe_def demoProbe_def)
  have b: "GetFieldEventType demoExtern demoEvent ''open.filename'' = Inr ''open''"
    by (simp add: demoExtern_def)
  have c: "GetFieldValue demoExtern demoEvent ''open.filename'' = Inr (StringValue ''/etc/passwd'')"
    by (simp add: demoExtern_def)
  have d: "onDiscardersFncs demoDiscarderProbe ''open'' = [demoFirst, demoSecond]"
          "trace demoDiscarderProbe = []"
    by (simp_all add: demoDiscarderProbe_def demoProbe_def)
  show ?thesis
    using OnNewDiscarder_in_order_first_error_aborts [OF a b c, of "''ruleset''"]
    by (simp add: a b c d discarderOk_def discarderCall_def demoFirst_def demoSecond_def)
qed

text \<open>
  Claim C6. \<open>ApplyApprovers\<close> returns nil and leaves the probe as it is when no
  function is registered for the event type. When one is registered, it is called once;
  the result is what it returns, and when that is an error the error is logged with the
  fallback policy mode and the event type before it is returned.
\<close>

theorem ApplyApprovers_absent_noop_else_once:
  "(allApproversFncs G eventType = None \<longrightarrow> ApplyApprovers G eventType approvers p = (None, p)) \<and>
   (\<forall>fnc. allApproversFncs G eventType = Some fnc \<longrightarrow>
      ApplyApprovers G eventType approvers p =
        (approverRun fnc approvers,
         p\<lparr>trace := trace p @
              Call_onApproversFnc (approverName fnc) approvers #
              (case approverRun fnc approvers of
                 None \<Rightarrow> []
               | Some err \<Rightarrow>
                   [Log ERROR ''Error while adding approvers fallback in-kernel policy to `%s` for `%s`: %s''
                      [ArgMode PolicyModeAccept, ArgStr eventType, ArgErr err]])\<rparr>))"
  by (simp add: ApplyApprovers_def log_def split: option.splits)

theorem ApplyApprovers_absent_noop_else_once_witness:
  "allApproversFncs demoGlobals ''rename'' = None \<and>
   ApplyApprovers demoGlobals ''rename'' [(''rename.old.filename'', [StringValue ''/a''])] demoProbe = (None, demoProbe) \<and>
   allApproversFncs demoGlobals ''open'' = Some demoApprover \<and>
   ApplyApprovers demoGlobals ''open'' [(''open.filename'', [StringValue ''/a''])] demoProbe =
     (Some (Foreign ''approver failed''),
      demoProbe\<lparr>trace :=
        [Call_onApproversFnc ''openOnNewApprovers'' [(''open.filename'', [StringValue ''/a''])],
         Log ERROR ''Error while adding approvers fallback in-kernel policy to `%s` for `%s`: %s''
           [ArgMode PolicyModeAccept, ArgStr ''open'', ArgErr (Foreign ''approver failed'')]]\<rparr>)"
proof -
  have a: "allApproversFncs demoGlobals ''rename'' = None"
          "allApproversFncs demoGlobals ''open'' = Some demoApprover"
    by (simp_all add: demoGlobals_def init_def emptyGlobals_def)
  have b: "trace demoProbe = []"
    by (simp add: demoProbe_def)
  show ?thesis
    using ApplyApprovers_absent_noop_else_once
            [of demoGlobals "''rename''" "[(''rename.old.filename'', [StringValue ''/a''])]" demoProbe]
          ApplyApprovers_absent_noop_else_once
            [of demoGlobals "''open''" "[(''open.filename'', [StringValue ''/a''])]" demoProbe]
    by (simp add: a b demoApprover_def)
qed

subsection \<open>Filter policies, initialisation and the event container\<close>

lemma putCalls_append [simp]: "putCalls (xs @ ys) = putCalls xs @ putCalls ys"
  by (simp add: putCalls_def)

lemma putCalls_simps [simp]:
  "putCalls [] = []"
  "putCalls (Log l fmt args # tr) = putCalls tr"
  "putCalls (Call_Put table k v # tr) = Call_Put table k v # putCalls tr"
  by (simp_all add: putCalls_def isPut_def)

text \<open>
  Claim C7. When the table name does not resolve to a live table (no manager, a table
  that is not found, an error of the lookup or a nil map), \<open>ApplyFilterPolicy\<close> returns
  the error \<open>unable to find policy table\<close> and writes to no kernel map. When the name
  resolves, it makes exactly one write, of the policy record under the sentinel key of
  that table, and returns what the write returns.
\<close>

theorem ApplyFilterPolicy_missing_table_no_write:
  "(Probe_Map tableName p = None \<longrightarrow>
      ApplyFilterPolicy eventType tableName mode flags p =
        (Some (fmt_Errorf ''unable to find policy table `%s`'' [tableName]),
         log INFO ''Setting in-kernel filter policy to `%s` for `%s`'' [ArgMode mode, ArgStr eventType] p) \<and>
      kernelMaps (snd (ApplyFilterPolicy eventType tableName mode flags p)) = kernelMaps p \<and>
      putCalls (trace (snd (ApplyFilterPolicy eventType tableName mode flags p))) = putCalls (trace p)) \<and>
   (\<forall>table. Probe_Map tableName p = Some table \<longrightarrow>
      fst (ApplyFilterPolicy eventType tableName mode flags p) = kernelPutError p table \<and>
      putCalls (trace (snd (ApplyFilterPolicy eventType tableName mode flags p))) =
        putCalls (trace p) @ [Call_Put table ZeroUint32MapItem \<lparr>Mode = mode, Flags = flags\<rparr>] \<and>
      kernelMaps (snd (ApplyFilterPolicy eventType tableName mode flags p)) =
        (if kernelPutError p table = None
         then (kernelMaps p)(table := (kernelMaps p table)(ZeroUint32MapItem \<mapsto> \<lparr>Mode = mode, Flags = flags\<rparr>))
         else kernelMaps p))"
  by (simp add: ApplyFilterPolicy_def Probe_Map_def log_def Put_def Let_def split: option.splits prod.splits)

theorem ApplyFilterPolicy_missing_table_no_write_witness:
  "Probe_Map ''no_such_table'' demoProbe = None \<and>
   ApplyFilterPolicy ''open'' ''no_such_table'' PolicyModeDeny 0 demoProbe =
     (Some (fmt_Errorf ''unable to find policy table `%s`'' [''no_such_table'']),
      log INFO ''Setting in-kernel filter policy to `%s` for `%s`'' [ArgMode PolicyModeDeny, ArgStr ''open''] demoProbe) \<and>
   Probe_Map ''open_policy'' demoProbe = Some ''open_policy'' \<and>
   fst (ApplyFilterPolicy ''open'' ''open_policy'' PolicyModeDeny 0 demoProbe) = None \<and>
   putCalls (trace (snd (ApplyFilterPolicy ''open'' ''open_policy'' PolicyModeDeny 0 demoProbe))) =
     [Call_Put ''open_policy'' 0 \<lparr>Mode = PolicyModeDeny, Flags = 0\<rparr>] \<and>
   kernelMaps (snd (ApplyFilterPolicy ''open'' ''open_policy'' PolicyModeDeny 0 demoProbe)) ''open_policy'' 0 =
     Some \<lparr>Mode = PolicyModeDeny, Flags = 0\<rparr>"
proof -
  have a: "Probe_Map ''no_such_table'' demoProbe = None" "Probe_Map ''open_policy'' demoProbe = Some ''open_policy''"
    by (simp_all add: Probe_Map_def demoProbe_def)
  have b: "kernelPutError demoProbe ''open_policy'' = None" "trace demoProbe = []"
    by (simp_all add: demoProbe_def)
  show ?thesis
    using ApplyFilterPolicy_missing_table_no_write [of "''no_such_table''" demoProbe "''open''" PolicyModeDeny 0]
          ApplyFilterPolicy_missing_table_no_write [of "''open_policy''" demoProbe "''open''" PolicyModeDeny 0]
    by (simp add: a b ZeroUint32MapItem_def)
qed

text \<open>
  Claim C5, as stated, fails: with kernel filters disabled, \<open>Init\<close> writes no policy
  at all (no write to a kernel map, the slot of the policy table stays empty), and a later
  \<open>ApplyFilterPolicy\<close> with the mode deny stores deny: nothing in the file forces
  the policy to pass.
\<close>

theorem Init_no_explicit_pass_counterexample:
  "\<not> EnableKernelFilters (config demoProbe) \<and>
   fst (Init demoExtern demoGlobals demoProbe) = None \<and>
   putCalls (trace (snd (Init demoExtern demoGlobals demoProbe))) = [] \<and>
   kernelMaps (snd (Init demoExtern demoGlobals demoProbe)) ''open_policy'' ZeroUint32MapItem = None \<and>
   kernelMaps (snd (ApplyFilterPolicy ''open'' ''open_policy'' PolicyModeDeny 0
                      (snd (Init demoExtern demoGlobals demoProbe)))) ''open_policy'' ZeroUint32MapItem =
     Some \<lparr>Mode = PolicyModeDeny, Flags = 0\<rparr>"
  by (simp add: Init_def demoProbe_def log_def ApplyFilterPolicy_def Probe_Map_def Put_def Let_def)

text \<open>
  Claim C5, amended. \<open>Init\<close> always succeeds and leaves the kernel maps as they are;
  when kernel filters are disabled its only trace is the warning that the policy is
  forced to pass. \<open>ApplyFilterPolicy\<close> does not read the configuration: it writes the
  mode and flags that its caller passes.
\<close>

theorem Init_only_warns_policy_left_to_caller:
  "fst (Init E G p) = None \<and>
   kernelMaps (snd (Init E G p)) = kernelMaps p \<and>
   trace (snd (Init E G p)) =
     trace p @ (if EnableKernelFilters (config p) then []
                else [Log WARN ''Forcing in-kernel filter policy to `pass`: filtering not enabled'' []]) \<and>
   ApplyFilterPolicy eventType tableName mode flags (p\<lparr>config := c\<rparr>) =
     (fst (ApplyFilterPolicy eventType tableName mode flags p),
      (snd (ApplyFilterPolicy eventType tableName mode flags p))\<lparr>config := c\<rparr>)"
  by (simp add: Init_def RegisterProbesSelectors_def log_def ApplyFilterPolicy_def Probe_Map_def Put_def Let_def
      split: option.splits prod.splits)

theorem Init_only_warns_policy_left_to_caller_witness:
  "fst (Init demoExtern demoGlobals demoProbe) = None \<and>
   kernelMaps (snd (Init demoExtern demoGlobals demoProbe)) = kernelMaps demoProbe \<and>
   trace (snd (Init demoExtern demoGlobals demoProbe)) =
     [Log WARN ''Forcing in-kernel filter policy to `pass`: filtering not enabled'' []]"
  using Init_only_warns_policy_left_to_caller [of demoExtern demoGlobals demoProbe]
  by (simp add: demoProbe_def)

text \<open>
  Claim C8, amended. The probe has one event container, shared by the callbacks of all
  CPUs: \<open>handleEvent\<close> zeroes and refills it on every call, so its outcome depends
  neither on the CPU of the callback nor on what an earlier callback left in the
  container.
\<close>

theorem handleEvent_one_container_for_all_CPUs:
  "handleEvent E CPU1 data (p\<lparr>event := e\<rparr>) = handleEvent E CPU2 data p"
  by (simp add: handleEvent_def zeroEvent_def)

theorem handleEvent_one_container_for_all_CPUs_witness:
  "handleEvent demoExtern 0 [1, 7] (demoProbe\<lparr>event := demoEvent\<rparr>) =
   handleEvent demoExtern 1 [1, 7] demoProbe"
  using handleEvent_one_container_for_all_CPUs
          [where E = demoExtern and ?CPU1.0 = 0 and ?CPU2.0 = 1 and data = "[1, 7]" and p = demoProbe
             and e = demoEvent]
  by simp

text \<open>
  Claim C8, as stated, fails: the container that the callback of CPU 0 has filled with an
  open event is zeroed and refilled by the callback of CPU 1.
\<close>

theorem handleEvent_container_shared_counterexample:
  "(case handleEvent demoExtern 0 [1, 7] demoProbe of
      Return p1 \<Rightarrow>
        Type (event p1) = 1 \<and> Open (event p1) = 7 \<and>
        (case handleEvent demoExtern 1 [2, 9] p1 of
           Return p2 \<Rightarrow> Type (event p2) = 2 \<and> Open (event p2) = 0 \<and> Mkdir (event p2) = 9
         | _ \<Rightarrow> False)
    | _ \<Rightarrow> False)"
  by (simp add: handleEvent_def zeroEvent_def eventZero_def demoExtern_def demoProbe_def demoFile_def
        switch_eventType_def fileCase_def slice_from_def log_def afterSwitch_def CountEventType_def
        DispatchEvent_def Let_def)

subsection \<open>Sending and reading the statistics\<close>

lemma receivedCalls_append [simp]: "receivedCalls (xs @ ys) = receivedCalls xs @ receivedCalls ys"
  by (simp add: receivedCalls_def)

lemma receivedCalls_countCall [simp]: "receivedCalls (map (countCall E cs) xs) = map (countCall E cs) xs"
  by (induction xs) (simp_all add: receivedCalls_def isReceived_def countCall_def)

lemma receivedCalls_simps [simp]:
  "receivedCalls [] = []"
  "receivedCalls [Call_SyscallMonitor_SendStats] = []"
  "receivedCalls [Call_Count (MetricPrefix @ ''.events.lost'') v tags] = []"
  by (simp_all add: receivedCalls_def isReceived_def)












lemma demo_upt: "[1..<5] = [1, 2, 3, 4::nat]"
  by (simp add: upt_rec)




end
